theory Spec2Isabelle
  imports Main
begin

section \<open>Data model (src/index.ts, interfaces)\<close>

text \<open>
  Identifiers are JavaScript strings. Timestamps (\<open>Date.now()\<close>) and the like and
  reply counts are non-negative integers; they are modelled as \<open>nat\<close>, which is
  exact for a JavaScript number below \<open>2^53\<close>. Optional fields are \<open>option\<close>.
\<close>

record User =
  user_id :: string
  username :: string
  profilePicture :: string

record Post =
  post_id :: string
  post_userId :: string
  content :: string
  imageUrl :: "string option"
  videoUrl :: "string option"
  post_timestamp :: nat
  likeCount :: nat
  replyCount :: nat

record NewsFeedItem =
  item_postId :: string
  item_timestamp :: nat

record FanoutMessage =
  msg_postId :: string
  msg_userId :: string
  friendIds :: "string list"

text \<open>The value stored in the \<open>counters\<close> table: \<open>{ likes, replies }\<close>.\<close>

record Counter =
  likes :: nat
  replies :: nat

section \<open>CacheLayer\<close>

text \<open>
  \<open>likePost\<close> assigns to a field of a \<open>Post\<close> object that the tables \<open>posts\<close> and
  \<open>hotCache\<close> may both hold, so \<open>Post\<close> objects live in an explicit object store
  \<open>objs\<close> (address to object) and the two tables hold addresses. \<open>nextRef\<close> is the
  next unused address. All other tables hold values that nothing else refers to.

  A JavaScript \<open>Set\<close> of strings iterates in insertion order; it is a list without
  duplicates, extended at the end.
\<close>

type_synonym ref = nat

record CacheLayer =
  newsFeeds :: "string \<rightharpoonup> NewsFeedItem list"
  posts :: "string \<rightharpoonup> ref"
  users :: "string \<rightharpoonup> User"
  hotCache :: "string \<rightharpoonup> ref"
  socialGraph :: "string \<rightharpoonup> string list"
  actions :: "string \<rightharpoonup> (string \<rightharpoonup> bool)"
  counters :: "string \<rightharpoonup> Counter"
  objs :: "ref \<rightharpoonup> Post"
  nextRef :: ref

definition empty_cache :: CacheLayer where
  "empty_cache =
     \<lparr>newsFeeds = Map.empty, posts = Map.empty, users = Map.empty, hotCache = Map.empty,
      socialGraph = Map.empty, actions = Map.empty, counters = Map.empty,
      objs = Map.empty, nextRef = 0\<rparr>"

text \<open>Reading the object at an address.\<close>

definition deref :: "CacheLayer \<Rightarrow> ref \<Rightarrow> Post" where
  "deref s r = the (objs s r)"

subsection \<open>News feed cache\<close>

definition getNewsFeed :: "CacheLayer \<Rightarrow> string \<Rightarrow> NewsFeedItem list" where
  "getNewsFeed s userId = (case newsFeeds s userId of None \<Rightarrow> [] | Some feed \<Rightarrow> feed)"

text \<open>\<open>unshift\<close> puts the item in front; \<open>splice(1000)\<close> removes everything from index 1000 on.\<close>

definition addToNewsFeed :: "CacheLayer \<Rightarrow> string \<Rightarrow> NewsFeedItem \<Rightarrow> CacheLayer" where
  "addToNewsFeed s userId item =
     (let feed = (case newsFeeds s userId of None \<Rightarrow> [] | Some f \<Rightarrow> f);
          feed1 = item # feed;
          feed2 = (if length feed1 > 1000 then take 1000 feed1 else feed1)
      in s\<lparr>newsFeeds := (newsFeeds s)(userId \<mapsto> feed2)\<rparr>)"

subsection \<open>Post cache\<close>

text \<open>\<open>getPost\<close> returns the object (its address), or nothing.\<close>

definition getPost :: "CacheLayer \<Rightarrow> string \<Rightarrow> ref option" where
  "getPost s postId =
     (case hotCache s postId of Some r \<Rightarrow> Some r | None \<Rightarrow> posts s postId)"

definition setPost :: "CacheLayer \<Rightarrow> ref \<Rightarrow> CacheLayer" where
  "setPost s post =
     (let s1 = s\<lparr>posts := (posts s)(post_id (deref s post) \<mapsto> post)\<rparr>
      in if likeCount (deref s1 post) > 100
         then s1\<lparr>hotCache := (hotCache s1)(post_id (deref s1 post) \<mapsto> post)\<rparr>
         else s1)"

subsection \<open>User cache\<close>

definition getUser :: "CacheLayer \<Rightarrow> string \<Rightarrow> User option" where
  "getUser s userId = users s userId"

definition setUser :: "CacheLayer \<Rightarrow> User \<Rightarrow> CacheLayer" where
  "setUser s user = s\<lparr>users := (users s)(user_id user \<mapsto> user)\<rparr>"

subsection \<open>Social graph\<close>

definition set_add :: "string list \<Rightarrow> string \<Rightarrow> string list" where
  "set_add xs x = (if x \<in> set xs then xs else xs @ [x])"

definition getFollowers :: "CacheLayer \<Rightarrow> string \<Rightarrow> string list" where
  "getFollowers s userId =
     (case socialGraph s (''followers_'' @ userId) of None \<Rightarrow> [] | Some f \<Rightarrow> f)"

definition getFollowing :: "CacheLayer \<Rightarrow> string \<Rightarrow> string list" where
  "getFollowing s userId =
     (case socialGraph s (''following_'' @ userId) of None \<Rightarrow> [] | Some f \<Rightarrow> f)"

definition addFollower :: "CacheLayer \<Rightarrow> string \<Rightarrow> string \<Rightarrow> CacheLayer" where
  "addFollower s userId followerId =
     (let g = socialGraph s;
          followers = (case g (''followers_'' @ userId) of None \<Rightarrow> [] | Some f \<Rightarrow> f);
          g1 = g(''followers_'' @ userId \<mapsto> set_add followers followerId);
          following = (case g1 (''following_'' @ followerId) of None \<Rightarrow> [] | Some f \<Rightarrow> f);
          g2 = g1(''following_'' @ followerId \<mapsto> set_add following userId)
      in s\<lparr>socialGraph := g2\<rparr>)"

subsection \<open>Actions and counters\<close>

definition getCounters :: "CacheLayer \<Rightarrow> string \<Rightarrow> Counter" where
  "getCounters s postId =
     (case counters s postId of None \<Rightarrow> \<lparr>likes = 0, replies = 0\<rparr> | Some c \<Rightarrow> c)"

definition hasLiked :: "CacheLayer \<Rightarrow> string \<Rightarrow> string \<Rightarrow> bool" where
  "hasLiked s userId postId =
     (case actions s userId of
        None \<Rightarrow> False
      | Some m \<Rightarrow> (case m postId of None \<Rightarrow> False | Some b \<Rightarrow> b))"

definition likePost :: "CacheLayer \<Rightarrow> string \<Rightarrow> string \<Rightarrow> CacheLayer" where
  "likePost s userId postId =
     (let userActions = (case actions s userId of None \<Rightarrow> Map.empty | Some m \<Rightarrow> m);
          s1 = s\<lparr>actions := (actions s)(userId \<mapsto> userActions(postId \<mapsto> True))\<rparr>;
          counter0 = (case counters s1 postId of
                        None \<Rightarrow> \<lparr>likes = 0, replies = 0\<rparr> | Some c \<Rightarrow> c);
          counter = counter0\<lparr>likes := likes counter0 + 1\<rparr>;
          s2 = s1\<lparr>counters := (counters s1)(postId \<mapsto> counter)\<rparr>
      in case getPost s2 postId of
           None \<Rightarrow> s2
         | Some post \<Rightarrow>
             setPost
               (s2\<lparr>objs := (objs s2)(post \<mapsto> (deref s2 post)\<lparr>likeCount := likes counter\<rparr>)\<rparr>)
               post)"

section \<open>PostService\<close>

text \<open>
  \<open>String(n)\<close> of a non-negative integer below \<open>10^21\<close>: its decimal digits.
\<close>

definition digit_char :: "nat \<Rightarrow> char" where
  "digit_char d = ''0123456789'' ! d"

function string_of_nat :: "nat \<Rightarrow> string" where
  "string_of_nat n =
     (if n < 10 then [digit_char n]
      else string_of_nat (n div 10) @ [digit_char (n mod 10)])"
  by pat_completeness auto
termination
  by (relation "measure (\<lambda>n. n)") auto

declare string_of_nat.simps [simp del]

text \<open>
  \<open>createPost\<close> reads the clock twice (\<open>now_id\<close> for the id, \<open>now_ts\<close> for the
  timestamp) and draws \<open>rnd\<close>, the string
  \<open>Math.random().toString(36).substr(2, 9)\<close>. The three are inputs of the model.
  It returns the new object together with the updated cache.
\<close>

definition createPost ::
  "CacheLayer \<Rightarrow> string \<Rightarrow> string \<Rightarrow> string option \<Rightarrow> string option \<Rightarrow>
   nat \<Rightarrow> string \<Rightarrow> nat \<Rightarrow> ref \<times> CacheLayer" where
  "createPost s userId cont imgUrl vidUrl now_id rnd now_ts =
     (let post = \<lparr>post_id = ''post_'' @ string_of_nat now_id @ ''_'' @ rnd,
                  post_userId = userId, content = cont, imageUrl = imgUrl, videoUrl = vidUrl,
                  post_timestamp = now_ts, likeCount = 0, replyCount = 0\<rparr>;
          r = nextRef s;
          s1 = s\<lparr>objs := (objs s)(r \<mapsto> post), nextRef := r + 1\<rparr>
      in (r, setPost s1 r))"

definition PostService_getPost :: "CacheLayer \<Rightarrow> string \<Rightarrow> ref option" where
  "PostService_getPost s postId = getPost s postId"

section \<open>NewsFeedService\<close>

record Author =
  author_username :: string
  author_profilePicture :: string

record HydratedItem =
  h_id :: string
  h_userId :: string
  h_content :: string
  h_imageUrl :: "string option"
  h_videoUrl :: "string option"
  h_timestamp :: nat
  h_author :: "Author option"
  h_likeCount :: nat
  h_replyCount :: nat
  h_liked :: bool

text \<open>
  \<open>xs.slice(0, limit)\<close> for an integer \<open>limit\<close>: a negative end counts from the
  end of the array.
\<close>

definition slice0 :: "'a list \<Rightarrow> int \<Rightarrow> 'a list" where
  "slice0 xs limit =
     (let len = int (length xs);
          e = (if limit < 0 then max (len + limit) 0 else min limit len)
      in take (nat e) xs)"

text \<open>The body of the \<open>for\<close> loop of \<open>getNewsFeed\<close>, for one feed item.\<close>

definition hydrate_one :: "CacheLayer \<Rightarrow> string \<Rightarrow> NewsFeedItem \<Rightarrow> HydratedItem option" where
  "hydrate_one s userId item =
     (case getPost s (item_postId item) of
        None \<Rightarrow> None
      | Some r \<Rightarrow>
          (let post = deref s r;
               author = getUser s (post_userId post);
               cnt = getCounters s (post_id post);
               liked = hasLiked s userId (post_id post)
           in Some \<lparr>h_id = post_id post, h_userId = post_userId post,
                    h_content = content post, h_imageUrl = imageUrl post,
                    h_videoUrl = videoUrl post, h_timestamp = post_timestamp post,
                    h_author =
                      (case author of
                         None \<Rightarrow> None
                       | Some a \<Rightarrow> Some \<lparr>author_username = username a,
                                          author_profilePicture = profilePicture a\<rparr>),
                    h_likeCount = likes cnt, h_replyCount = replies cnt,
                    h_liked = liked\<rparr>))"

fun hydrate :: "CacheLayer \<Rightarrow> string \<Rightarrow> NewsFeedItem list \<Rightarrow> HydratedItem list" where
  "hydrate s userId [] = []"
| "hydrate s userId (item # items) =
     (case hydrate_one s userId item of
        None \<Rightarrow> hydrate s userId items
      | Some h \<Rightarrow> h # hydrate s userId items)"

definition NewsFeedService_getNewsFeed :: "CacheLayer \<Rightarrow> string \<Rightarrow> int \<Rightarrow> HydratedItem list" where
  "NewsFeedService_getNewsFeed s userId limit =
     hydrate s userId (slice0 (getNewsFeed s userId) limit)"

section \<open>MessageQueue and FanoutWorker\<close>

text \<open>
  Worker \<open>i\<close> is the \<open>i\<close>-th element of \<open>workers\<close>; the list holds each worker's
  \<open>busy\<close> flag. The whole system is the cache together with the queue.

  \<open>process\<close> is an \<open>async\<close> function: called from \<open>processQueue\<close> it runs up to its
  \<open>await\<close> at once, so it sets \<open>busy\<close> and writes the feeds during the call. What
  follows the \<open>await\<close> (\<open>this.busy = false\<close>) runs when the 100 ms timer fires:
  that is the separate event \<open>process_resume\<close>.
\<close>

record MessageQueue =
  queue :: "FanoutMessage list"
  workers :: "bool list"

record System =
  cache :: CacheLayer
  messageQueue :: MessageQueue

definition new_MessageQueue :: "nat \<Rightarrow> MessageQueue" where
  "new_MessageQueue workerCount = \<lparr>queue = [], workers = replicate workerCount False\<rparr>"

definition init_system :: System where
  "init_system = \<lparr>cache = empty_cache, messageQueue = new_MessageQueue 5\<rparr>"

fun fanout_loop :: "CacheLayer \<Rightarrow> string list \<Rightarrow> NewsFeedItem \<Rightarrow> CacheLayer" where
  "fanout_loop c [] item = c"
| "fanout_loop c (friendId # rest) item = fanout_loop (addToNewsFeed c friendId item) rest item"

definition process :: "System \<Rightarrow> nat \<Rightarrow> FanoutMessage \<Rightarrow> nat \<Rightarrow> System" where
  "process sys i message now =
     (let mq = messageQueue sys;
          mq1 = mq\<lparr>workers := (workers mq)[i := True]\<rparr>;
          newsFeedItem = \<lparr>item_postId = msg_postId message, item_timestamp = now\<rparr>
      in \<lparr>cache = fanout_loop (cache sys) (friendIds message) newsFeedItem,
          messageQueue = mq1\<rparr>)"

definition process_resume :: "System \<Rightarrow> nat \<Rightarrow> System" where
  "process_resume sys i =
     sys\<lparr>messageQueue := (messageQueue sys)\<lparr>workers := (workers (messageQueue sys))[i := False]\<rparr>\<rparr>"

text \<open>\<open>workers.find((w) => !w.isBusy())\<close>: the first worker that is not busy.\<close>

fun find_idle :: "bool list \<Rightarrow> nat \<Rightarrow> nat option" where
  "find_idle [] i = None"
| "find_idle (b # bs) i = (if \<not> b then Some i else find_idle bs (i + 1))"

definition processQueue :: "System \<Rightarrow> nat \<Rightarrow> System" where
  "processQueue sys now =
     (case queue (messageQueue sys) of
        [] \<Rightarrow> sys
      | message # rest \<Rightarrow>
          (case find_idle (workers (messageQueue sys)) 0 of
             None \<Rightarrow> sys
           | Some i \<Rightarrow>
               process (sys\<lparr>messageQueue := (messageQueue sys)\<lparr>queue := rest\<rparr>\<rparr>) i message now))"

definition enqueue :: "System \<Rightarrow> FanoutMessage \<Rightarrow> nat \<Rightarrow> System" where
  "enqueue sys message now =
     processQueue
       (sys\<lparr>messageQueue := (messageQueue sys)\<lparr>queue := queue (messageQueue sys) @ [message]\<rparr>\<rparr>)
       now"

section \<open>FanoutService\<close>

definition fanoutPost :: "System \<Rightarrow> string \<Rightarrow> string \<Rightarrow> nat \<Rightarrow> System" where
  "fanoutPost sys postId userId now =
     (let followers = getFollowers (cache sys) userId
      in if length followers = 0 then sys
         else enqueue sys \<lparr>msg_postId = postId, msg_userId = userId, friendIds = followers\<rparr> now)"

section \<open>Sequences of operations\<close>

text \<open>
  The operations that change the cache, as the request handlers, the fanout workers and
  the sample data call them. \<open>run\<close> performs a list of them in order.
\<close>

datatype op =
    SetUser User
  | AddFollower string string
  | LikePost string string
  | CreatePost string string "string option" "string option" nat string nat
  | AddToNewsFeed string NewsFeedItem

fun apply_op :: "CacheLayer \<Rightarrow> op \<Rightarrow> CacheLayer" where
  "apply_op s (SetUser u) = setUser s u"
| "apply_op s (AddFollower userId followerId) = addFollower s userId followerId"
| "apply_op s (LikePost userId postId) = likePost s userId postId"
| "apply_op s (CreatePost userId cont imgUrl vidUrl now_id rnd now_ts) =
     snd (createPost s userId cont imgUrl vidUrl now_id rnd now_ts)"
| "apply_op s (AddToNewsFeed userId item) = addToNewsFeed s userId item"

fun run :: "op list \<Rightarrow> CacheLayer \<Rightarrow> CacheLayer" where
  "run [] s = s"
| "run (x # xs) s = run xs (apply_op s x)"



section \<open>Invariants of the cache\<close>


text \<open>Every stored counter has \<open>replies = 0\<close>.\<close>

definition counters_inv :: "CacheLayer \<Rightarrow> bool" where
  "counters_inv s \<longleftrightarrow> (\<forall>k c. counters s k = Some c \<longrightarrow> replies c = 0)"

text \<open>The two indexes of the follow graph are inverses of each other.\<close>

definition graph_inv :: "CacheLayer \<Rightarrow> bool" where
  "graph_inv s \<longleftrightarrow>
     (\<forall>a b. a \<in> set (getFollowers s b) \<longleftrightarrow> b \<in> set (getFollowing s a))"

section \<open>Which tables each operation leaves alone\<close>


lemma setPost_fields [simp]:
  "newsFeeds (setPost s r) = newsFeeds s"
  "users (setPost s r) = users s"
  "socialGraph (setPost s r) = socialGraph s"
  "actions (setPost s r) = actions s"
  "counters (setPost s r) = counters s"
  "objs (setPost s r) = objs s"
  "nextRef (setPost s r) = nextRef s"
  by (simp_all add: setPost_def Let_def)

lemma likePost_fields [simp]:
  "newsFeeds (likePost s u p) = newsFeeds s"
  "users (likePost s u p) = users s"
  "socialGraph (likePost s u p) = socialGraph s"
  "nextRef (likePost s u p) = nextRef s"
  by (simp_all add: likePost_def Let_def split: option.splits)

lemma counters_likePost:
  "counters (likePost s u p) =
     (counters s)(p \<mapsto> (getCounters s p)\<lparr>likes := likes (getCounters s p) + 1\<rparr>)"
  by (simp add: likePost_def getCounters_def Let_def split: option.splits)

lemma createPost_fields [simp]:
  "newsFeeds (snd (createPost s u c i v n r t)) = newsFeeds s"
  "users (snd (createPost s u c i v n r t)) = users s"
  "socialGraph (snd (createPost s u c i v n r t)) = socialGraph s"
  "actions (snd (createPost s u c i v n r t)) = actions s"
  "counters (snd (createPost s u c i v n r t)) = counters s"
  by (simp_all add: createPost_def Let_def)

lemma addFollower_fields [simp]:
  "newsFeeds (addFollower s a b) = newsFeeds s"
  "users (addFollower s a b) = users s"
  "posts (addFollower s a b) = posts s"
  "hotCache (addFollower s a b) = hotCache s"
  "actions (addFollower s a b) = actions s"
  "counters (addFollower s a b) = counters s"
  "objs (addFollower s a b) = objs s"
  "nextRef (addFollower s a b) = nextRef s"
  by (simp_all add: addFollower_def Let_def)

lemma setUser_fields [simp]:
  "newsFeeds (setUser s a) = newsFeeds s"
  "socialGraph (setUser s a) = socialGraph s"
  "posts (setUser s a) = posts s"
  "hotCache (setUser s a) = hotCache s"
  "actions (setUser s a) = actions s"
  "counters (setUser s a) = counters s"
  "objs (setUser s a) = objs s"
  "nextRef (setUser s a) = nextRef s"
  by (simp_all add: setUser_def)

lemma addToNewsFeed_fields [simp]:
  "users (addToNewsFeed s a b) = users s"
  "socialGraph (addToNewsFeed s a b) = socialGraph s"
  "posts (addToNewsFeed s a b) = posts s"
  "hotCache (addToNewsFeed s a b) = hotCache s"
  "actions (addToNewsFeed s a b) = actions s"
  "counters (addToNewsFeed s a b) = counters s"
  "objs (addToNewsFeed s a b) = objs s"
  "nextRef (addToNewsFeed s a b) = nextRef s"
  by (simp_all add: addToNewsFeed_def Let_def)

lemma getNewsFeed_addToNewsFeed:
  "getNewsFeed (addToNewsFeed s u item) v =
     (if v = u then take 1000 (item # getNewsFeed s u) else getNewsFeed s v)"
  by (simp add: getNewsFeed_def addToNewsFeed_def Let_def split: option.splits)

lemma getNewsFeed_apply_op_other:
  "\<forall>u item. x \<noteq> AddToNewsFeed u item \<Longrightarrow> getNewsFeed (apply_op s x) v = getNewsFeed s v"
  by (cases x) (simp_all add: getNewsFeed_def)

lemma feed_bound_step:
  "length (getNewsFeed s v) \<le> 1000 \<Longrightarrow> length (getNewsFeed (apply_op s x) v) \<le> 1000"
  by (cases x) (simp_all add: getNewsFeed_addToNewsFeed, simp_all add: getNewsFeed_def)

lemma feed_bound_run:
  "length (getNewsFeed s v) \<le> 1000 \<Longrightarrow> length (getNewsFeed (run xs s) v) \<le> 1000"
  by (induction xs arbitrary: s) (simp_all add: feed_bound_step)

lemma empty_cache_fields [simp]:
  "newsFeeds empty_cache = Map.empty"
  "posts empty_cache = Map.empty"
  "users empty_cache = Map.empty"
  "hotCache empty_cache = Map.empty"
  "socialGraph empty_cache = Map.empty"
  "actions empty_cache = Map.empty"
  "counters empty_cache = Map.empty"
  "objs empty_cache = Map.empty"
  "nextRef empty_cache = 0"
  by (simp_all add: empty_cache_def)

lemma users_setUser: "users (setUser s usr) = (users s)(user_id usr \<mapsto> usr)"
  by (simp add: setUser_def)

lemma deref_frame [simp]:
  "deref (addToNewsFeed s a b) r = deref s r"
  "deref (setUser s usr) r = deref s r"
  "deref (addFollower s x y) r = deref s r"
  by (simp_all add: deref_def)

lemma getNewsFeed_frame [simp]:
  "getNewsFeed (likePost s u p) w = getNewsFeed s w"
  "getNewsFeed (snd (createPost s a c i v n rnd t)) w = getNewsFeed s w"
  "getNewsFeed (setUser s usr) w = getNewsFeed s w"
  "getNewsFeed (addFollower s x y) w = getNewsFeed s w"
  "getNewsFeed empty_cache w = []"
  by (simp_all add: getNewsFeed_def empty_cache_def)

section \<open>The post tables\<close>

lemma deref_upd:
  "deref (s\<lparr>objs := (objs s)(r \<mapsto> p)\<rparr>) r' = (if r' = r then p else deref s r')"
  by (simp add: deref_def)

lemma actions_likePost:
  "actions (likePost s u p) =
     (actions s)(u \<mapsto> (case actions s u of None \<Rightarrow> Map.empty | Some m \<Rightarrow> m)(p \<mapsto> True))"
  by (simp add: likePost_def Let_def split: option.splits)

lemma objs_likePost:
  "objs (likePost s u p) =
     (case getPost s p of
        None \<Rightarrow> objs s
      | Some r \<Rightarrow> (objs s)(r \<mapsto> (deref s r)\<lparr>likeCount := likes (getCounters s p) + 1\<rparr>))"
  by (simp add: likePost_def Let_def getPost_def getCounters_def deref_def split: option.splits)

lemma posts_likePost:
  "posts (likePost s u p) =
     (case getPost s p of
        None \<Rightarrow> posts s
      | Some r \<Rightarrow> (posts s)(post_id (deref s r) \<mapsto> r))"
  by (simp add: likePost_def Let_def getPost_def getCounters_def deref_def setPost_def
      split: option.splits)

lemma hotCache_likePost:
  "hotCache (likePost s u p) =
     (case getPost s p of
        None \<Rightarrow> hotCache s
      | Some r \<Rightarrow>
          if likes (getCounters s p) + 1 > 100
          then (hotCache s)(post_id (deref s r) \<mapsto> r) else hotCache s)"
  by (simp add: likePost_def Let_def getPost_def getCounters_def deref_def setPost_def
      split: option.splits)

lemma deref_likePost:
  "deref (likePost s u p) r' =
     (case getPost s p of
        None \<Rightarrow> deref s r'
      | Some r \<Rightarrow>
          if r' = r then (deref s r)\<lparr>likeCount := likes (getCounters s p) + 1\<rparr>
          else deref s r')"
  by (simp add: deref_def objs_likePost split: option.splits)

lemma fst_createPost: "fst (createPost s u c i v n rnd t) = nextRef s"
  by (simp add: createPost_def Let_def)

lemma objs_createPost:
  "objs (snd (createPost s u c i v n rnd t)) =
     (objs s)(nextRef s \<mapsto>
        \<lparr>post_id = ''post_'' @ string_of_nat n @ ''_'' @ rnd,
         post_userId = u, content = c, imageUrl = i, videoUrl = v,
         post_timestamp = t, likeCount = 0, replyCount = 0\<rparr>)"
  by (simp add: createPost_def Let_def)

lemma deref_createPost:
  "deref (snd (createPost s u c i v n rnd t)) r' =
     (if r' = nextRef s
      then \<lparr>post_id = ''post_'' @ string_of_nat n @ ''_'' @ rnd,
            post_userId = u, content = c, imageUrl = i, videoUrl = v,
            post_timestamp = t, likeCount = 0, replyCount = 0\<rparr>
      else deref s r')"
  by (simp add: deref_def objs_createPost)

lemma posts_createPost:
  "posts (snd (createPost s u c i v n rnd t)) =
     (posts s)(''post_'' @ string_of_nat n @ ''_'' @ rnd \<mapsto> nextRef s)"
  by (simp add: createPost_def Let_def setPost_def deref_def)

lemma hotCache_createPost:
  "hotCache (snd (createPost s u c i v n rnd t)) = hotCache s"
  by (simp add: createPost_def Let_def setPost_def deref_def)

lemma nextRef_createPost:
  "nextRef (snd (createPost s u c i v n rnd t)) = nextRef s + 1"
  by (simp add: createPost_def Let_def)







lemma counters_inv_apply_op: "counters_inv s \<Longrightarrow> counters_inv (apply_op s x)"
  by (cases x) (auto simp: counters_inv_def counters_likePost getCounters_def split: option.splits)

lemma counters_inv_run: "counters_inv s \<Longrightarrow> counters_inv (run xs s)"
  by (induction xs arbitrary: s) (simp_all add: counters_inv_apply_op)

lemma counters_inv_replies: "counters_inv s \<Longrightarrow> replies (getCounters s k) = 0"
  by (simp add: counters_inv_def getCounters_def split: option.splits)

lemma hasLiked_likePost_self: "hasLiked (likePost s u p) u p"
  by (simp add: hasLiked_def actions_likePost)

lemma likes_likePost:
  "likes (getCounters (likePost s u p) p) = likes (getCounters s p) + 1"
  by (simp add: getCounters_def counters_likePost split: option.splits)

lemma getPost_posts_None: "getPost s k = None \<Longrightarrow> posts s k = None"
  by (simp add: getPost_def split: option.splits)













lemma string_of_nat_7: "string_of_nat 7 = ''7''"
  by (subst string_of_nat.simps) (simp add: digit_char_def)

section \<open>Hydration of feed entries\<close>






lemma hydrate_one_replies:
  "hydrate_one s u e = Some h \<Longrightarrow> \<exists>k. h_replyCount h = replies (getCounters s k)"
  by (auto simp: hydrate_one_def Let_def split: option.splits)

lemma hydrate_replies:
  "counters_inv s \<Longrightarrow> h \<in> set (hydrate s u items) \<Longrightarrow> h_replyCount h = 0"
proof (induction items)
  case Nil
  then show ?case by simp
next
  case (Cons e items)
  then show ?case
    by (auto split: option.splits dest!: hydrate_one_replies simp: counters_inv_replies)
qed

lemma counters_inv_empty: "counters_inv empty_cache"
  by (simp add: counters_inv_def empty_cache_def)

section \<open>The follow graph\<close>

lemma set_set_add: "set (set_add xs x) = insert x (set xs)"
  by (auto simp: set_add_def)

lemma getFollowers_addFollower:
  "getFollowers (addFollower s x y) b =
     (if b = x then set_add (getFollowers s x) y else getFollowers s b)"
  by (simp add: getFollowers_def addFollower_def Let_def)

lemma getFollowing_addFollower:
  "getFollowing (addFollower s x y) a =
     (if a = y then set_add (getFollowing s y) x else getFollowing s a)"
  by (simp add: getFollowing_def addFollower_def Let_def)

lemma graph_frame [simp]:
  "getFollowers (likePost s u p) w = getFollowers s w"
  "getFollowers (snd (createPost s a c i v n rnd t)) w = getFollowers s w"
  "getFollowers (setUser s usr) w = getFollowers s w"
  "getFollowers (addToNewsFeed s x e) w = getFollowers s w"
  "getFollowers empty_cache w = []"
  "getFollowing (likePost s u p) w = getFollowing s w"
  "getFollowing (snd (createPost s a c i v n rnd t)) w = getFollowing s w"
  "getFollowing (setUser s usr) w = getFollowing s w"
  "getFollowing (addToNewsFeed s x e) w = getFollowing s w"
  "getFollowing empty_cache w = []"
  by (simp_all add: getFollowers_def getFollowing_def)

lemma graph_inv_apply_op: "graph_inv s \<Longrightarrow> graph_inv (apply_op s x)"
  by (cases x)
     (auto simp: graph_inv_def getFollowers_addFollower getFollowing_addFollower set_set_add)

lemma graph_inv_run: "graph_inv s \<Longrightarrow> graph_inv (run xs s)"
  by (induction xs arbitrary: s) (simp_all add: graph_inv_apply_op)

section \<open>A small run of the system\<close>

text \<open>
  \<open>user1\<close> (alice) creates the post \<open>post_7_i\<close>; the post is put into the feed of
  \<open>user2\<close>, then an entry whose post does not exist; \<open>user2\<close> likes the post. Reading
  the feed of \<open>user2\<close> gives one item, the post with its author, one like, no reply
  and the viewer's like.
\<close>

lemma small_run_facts:
  fixes s
  defines "s \<equiv> run [SetUser \<lparr>user_id = ''user1'', username = ''alice'', profilePicture = ''a.jpg''\<rparr>,
              CreatePost ''user1'' ''hello'' None None 7 ''i'' 7,
              AddToNewsFeed ''user2'' \<lparr>item_postId = ''post_7_i'', item_timestamp = 8\<rparr>,
              AddToNewsFeed ''user2'' \<lparr>item_postId = ''ghost'', item_timestamp = 9\<rparr>,
              LikePost ''user2'' ''post_7_i''] empty_cache"
  shows "getNewsFeed s ''user2'' = [\<lparr>item_postId = ''ghost'', item_timestamp = 9\<rparr>, \<lparr>item_postId = ''post_7_i'', item_timestamp = 8\<rparr>]"
    and "getPost s ''ghost'' = None"
    and "getPost s ''post_7_i'' = Some 0"
    and "getCounters s ''post_7_i'' = \<lparr>likes = 1, replies = 0\<rparr>"
    and "hasLiked s ''user2'' ''post_7_i''"
    and "deref s 0 = \<lparr>post_id = ''post_7_i'', post_userId = ''user1'', content = ''hello'', imageUrl = None, videoUrl = None, post_timestamp = 7, likeCount = 1, replyCount = 0\<rparr>"
    and "getUser s ''user1'' = Some \<lparr>user_id = ''user1'', username = ''alice'', profilePicture = ''a.jpg''\<rparr>"
  unfolding s_def
  by (simp_all add: getNewsFeed_addToNewsFeed getPost_def posts_likePost
        hotCache_likePost posts_createPost hotCache_createPost string_of_nat_7
        getCounters_def counters_likePost hasLiked_def actions_likePost deref_likePost
        deref_createPost getUser_def users_setUser
      split: option.splits)


lemma small_run_feed:
  "NewsFeedService_getNewsFeed
     (run [SetUser \<lparr>user_id = ''user1'', username = ''alice'', profilePicture = ''a.jpg''\<rparr>,
              CreatePost ''user1'' ''hello'' None None 7 ''i'' 7,
              AddToNewsFeed ''user2'' \<lparr>item_postId = ''post_7_i'', item_timestamp = 8\<rparr>,
              AddToNewsFeed ''user2'' \<lparr>item_postId = ''ghost'', item_timestamp = 9\<rparr>,
              LikePost ''user2'' ''post_7_i''] empty_cache) ''user2'' 20 =
   [\<lparr>h_id = ''post_7_i'', h_userId = ''user1'', h_content = ''hello'', h_imageUrl = None,
     h_videoUrl = None, h_timestamp = 7,
     h_author = Some \<lparr>author_username = ''alice'', author_profilePicture = ''a.jpg''\<rparr>,
     h_likeCount = 1, h_replyCount = 0, h_liked = True\<rparr>]"
  by (simp add: NewsFeedService_getNewsFeed_def slice0_def hydrate_one_def Let_def small_run_facts
      del: run.simps)

section \<open>Post ids\<close>

lemma digit_cases:
  "d < 10 \<Longrightarrow> d = 0 \<or> d = 1 \<or> d = 2 \<or> d = 3 \<or> d = 4 \<or> d = 5 \<or> d = 6 \<or> d = 7 \<or> d = 8 \<or> d = (9::nat)"
  by arith

lemma digit_char_values:
  "digit_char 0 = CHR ''0''" "digit_char 1 = CHR ''1''" "digit_char 2 = CHR ''2''"
  "digit_char 3 = CHR ''3''" "digit_char 4 = CHR ''4''" "digit_char 5 = CHR ''5''"
  "digit_char 6 = CHR ''6''" "digit_char 7 = CHR ''7''" "digit_char 8 = CHR ''8''"
  "digit_char 9 = CHR ''9''" "digit_char (Suc 0) = CHR ''1''"
  by (simp_all add: digit_char_def)

lemma digit_char_not_underscore: "d < 10 \<Longrightarrow> digit_char d \<noteq> CHR ''_''"
  using digit_cases [of d] by (auto simp: digit_char_values)

lemma digit_char_inj:
  assumes "a < 10" and "b < 10" and "digit_char a = digit_char b"
  shows "a = b"
  using digit_cases [OF assms(1)] digit_cases [OF assms(2)] assms(3)
  by (elim disjE) (simp_all add: digit_char_values)

lemma string_of_nat_nonempty: "string_of_nat n \<noteq> []"
  by (subst string_of_nat.simps) simp

lemma string_of_nat_no_underscore: "CHR ''_'' \<notin> set (string_of_nat n)"
proof (induction n rule: string_of_nat.induct)
  case (1 n)
  show ?case
  proof (cases "n < 10")
    case True
    then show ?thesis
      using digit_char_not_underscore [of n] by (subst string_of_nat.simps) auto
  next
    case False
    have "n mod 10 < 10" by simp
    from digit_char_not_underscore [OF this] 1 False show ?thesis
      by (subst string_of_nat.simps) auto
  qed
qed

lemma string_of_nat_small: "n < 10 \<Longrightarrow> string_of_nat n = [digit_char n]"
  by (subst string_of_nat.simps) simp

lemma string_of_nat_big:
  "\<not> n < 10 \<Longrightarrow> string_of_nat n = string_of_nat (n div 10) @ [digit_char (n mod 10)]"
  by (subst string_of_nat.simps) simp

lemma string_of_nat_inj: "string_of_nat n = string_of_nat m \<Longrightarrow> n = m"
proof (induction n arbitrary: m rule: string_of_nat.induct)
  case (1 n)
  note eq = \<open>string_of_nat n = string_of_nat m\<close>
  show ?case
  proof (cases "n < 10")
    case n: True
    show ?thesis
    proof (cases "m < 10")
      case True
      from eq have "digit_char n = digit_char m"
        by (simp add: string_of_nat_small [OF n] string_of_nat_small [OF True])
      with n True show ?thesis by (rule digit_char_inj)
    next
      case False
      from eq have "[digit_char n] = string_of_nat (m div 10) @ [digit_char (m mod 10)]"
        by (simp add: string_of_nat_small [OF n] string_of_nat_big [OF False])
      then have "string_of_nat (m div 10) = []" by simp
      with string_of_nat_nonempty show ?thesis by blast
    qed
  next
    case n: False
    show ?thesis
    proof (cases "m < 10")
      case True
      from eq have "string_of_nat (n div 10) @ [digit_char (n mod 10)] = [digit_char m]"
        by (simp add: string_of_nat_small [OF True] string_of_nat_big [OF n])
      then have "string_of_nat (n div 10) = []" by simp
      with string_of_nat_nonempty show ?thesis by blast
    next
      case False
      from eq
      have "string_of_nat (n div 10) @ [digit_char (n mod 10)] =
            string_of_nat (m div 10) @ [digit_char (m mod 10)]"
        by (simp add: string_of_nat_big [OF False] string_of_nat_big [OF n])
      then have e: "string_of_nat (n div 10) = string_of_nat (m div 10)"
        and d: "digit_char (n mod 10) = digit_char (m mod 10)"
        by simp_all
      from "1.IH" [OF n e] have q: "n div 10 = m div 10" .
      have r: "n mod 10 = m mod 10"
        by (rule digit_char_inj [OF _ _ d]) simp_all
      have "n = 10 * (n div 10) + n mod 10" by simp
      also have "\<dots> = 10 * (m div 10) + m mod 10" using q r by simp
      also have "\<dots> = m" by simp
      finally show ?thesis .
    qed
  qed
qed

lemma split_at_separator:
  "c \<notin> set xs \<Longrightarrow> c \<notin> set ys \<Longrightarrow> xs @ c # us = ys @ c # vs \<Longrightarrow> xs = ys \<and> us = vs"
proof (induction xs arbitrary: ys)
  case Nil
  then show ?case by (cases ys) auto
next
  case (Cons x xs)
  then show ?case by (cases ys) auto
qed

lemma post_id_eq_iff:
  "''post_'' @ string_of_nat n @ ''_'' @ r = ''post_'' @ string_of_nat m @ ''_'' @ q
     \<longleftrightarrow> n = m \<and> r = q"
proof
  assume "''post_'' @ string_of_nat n @ ''_'' @ r = ''post_'' @ string_of_nat m @ ''_'' @ q"
  then have "string_of_nat n @ CHR ''_'' # r = string_of_nat m @ CHR ''_'' # q"
    by simp
  from split_at_separator [OF string_of_nat_no_underscore string_of_nat_no_underscore this]
  show "n = m \<and> r = q" by (auto dest: string_of_nat_inj)
qed simp

lemma post_id_tail_eq_iff:
  "string_of_nat n @ CHR ''_'' # r = string_of_nat m @ CHR ''_'' # q \<longleftrightarrow> n = m \<and> r = q"
  using post_id_eq_iff [of n r m q] by simp


section \<open>Likes and the queue\<close>

lemma likePost_twice:
  "likes (getCounters (likePost (likePost s u p) u p) p) = likes (getCounters s p) + 2"
  by (simp add: likes_likePost)

text \<open>
  What the queue does to the cache is a run of \<open>addToNewsFeed\<close> operations, so the
  states of the cache that the whole system reaches are among those that \<open>run\<close> reaches.
\<close>

lemma fanout_loop_run:
  "fanout_loop c fs item = run (map (\<lambda>f. AddToNewsFeed f item) fs) c"
  by (induction fs arbitrary: c) simp_all

lemma cache_processQueue:
  "\<exists>ops. cache (processQueue sys now) = run ops (cache sys)"
proof (cases "queue (messageQueue sys)")
  case Nil
  then have "cache (processQueue sys now) = run [] (cache sys)"
    by (simp add: processQueue_def)
  then show ?thesis by blast
next
  case (Cons message rest)
  show ?thesis
  proof (cases "find_idle (workers (messageQueue sys)) 0")
    case None
    with Cons have "cache (processQueue sys now) = run [] (cache sys)"
      by (simp add: processQueue_def)
    then show ?thesis by blast
  next
    case (Some i)
    with Cons have "cache (processQueue sys now) =
        run (map (\<lambda>f. AddToNewsFeed f \<lparr>item_postId = msg_postId message, item_timestamp = now\<rparr>)
               (friendIds message)) (cache sys)"
      by (simp add: processQueue_def process_def fanout_loop_run)
    then show ?thesis by blast
  qed
qed

lemma cache_enqueue:
  "\<exists>ops. cache (enqueue sys message now) = run ops (cache sys)"
  using cache_processQueue
    [of "sys\<lparr>messageQueue := (messageQueue sys)\<lparr>queue := queue (messageQueue sys) @ [message]\<rparr>\<rparr>" now]
  by (simp add: enqueue_def)

lemma resume_keeps_queue:
  "queue (messageQueue (process_resume sys i)) = queue (messageQueue sys) \<and>
   cache (process_resume sys i) = cache sys"
  by (simp add: process_resume_def)

section \<open>Likes\<close>

text \<open>
  C1. The claim asks that two likes of the same post by the same user raise
  \<open>getCounters(P).likes\<close> and the post's \<open>likeCount\<close> by 1. Evaluated on the code:
  \<open>user1\<close> creates a post (clock 7, random suffix \<open>i\<close>, so the id is \<open>post_7_i\<close>),
  its like count is 0; after one \<open>likePost\<close> by \<open>user2\<close> it is 1; after a second
  \<open>likePost\<close> by the same \<open>user2\<close> the counter is 2, and so is the \<open>likeCount\<close> of the
  post that \<open>getPost\<close> returns.
\<close>

theorem like_twice_counts_twice:
  "likes (getCounters (run [CreatePost ''user1'' ''hello'' None None 7 ''i'' 7] empty_cache)
            ''post_7_i'') = 0 \<and>
   likes (getCounters (run [CreatePost ''user1'' ''hello'' None None 7 ''i'' 7,
                            LikePost ''user2'' ''post_7_i''] empty_cache) ''post_7_i'') = 1 \<and>
   likes (getCounters (run [CreatePost ''user1'' ''hello'' None None 7 ''i'' 7,
                            LikePost ''user2'' ''post_7_i'',
                            LikePost ''user2'' ''post_7_i''] empty_cache) ''post_7_i'') = 2 \<and>
   getPost (run [CreatePost ''user1'' ''hello'' None None 7 ''i'' 7,
                 LikePost ''user2'' ''post_7_i'',
                 LikePost ''user2'' ''post_7_i''] empty_cache) ''post_7_i'' = Some 0 \<and>
   likeCount (deref (run [CreatePost ''user1'' ''hello'' None None 7 ''i'' 7,
                          LikePost ''user2'' ''post_7_i'',
                          LikePost ''user2'' ''post_7_i''] empty_cache) 0) = 2"
  by (simp add: getPost_def posts_likePost hotCache_likePost posts_createPost
        hotCache_createPost string_of_nat_7 getCounters_def counters_likePost
        deref_likePost deref_createPost
      split: option.splits)

section \<open>Dispatch of queued jobs\<close>

text \<open>
  C2. The claim asks that a worker that finishes takes the head of the backlog, so that
  no job stays queued while a worker is idle. Evaluated on the code, with the pool of 5
  workers the program creates: six jobs are enqueued before any worker resumes; the
  first five are taken at once and the sixth waits with all workers busy. When the five
  workers resume after their \<open>await\<close> they become idle and the sixth job is still in
  the queue: nothing but a later \<open>enqueue\<close> calls \<open>processQueue\<close>. The feed of the
  follower holds the first five posts only.
\<close>

theorem queued_job_left_with_idle_workers:
  "(let m = (\<lambda>pid. \<lparr>msg_postId = pid, msg_userId = ''user1'', friendIds = [''user2'']\<rparr>);
        s6 = enqueue (enqueue (enqueue (enqueue (enqueue (enqueue init_system
               (m ''p1'') 1) (m ''p2'') 2) (m ''p3'') 3) (m ''p4'') 4) (m ''p5'') 5) (m ''p6'') 6;
        s7 = process_resume (process_resume (process_resume (process_resume (process_resume s6
               0) 1) 2) 3) 4
    in queue (messageQueue s6) = [m ''p6''] \<and>
       workers (messageQueue s6) = [True, True, True, True, True] \<and>
       queue (messageQueue s7) = [m ''p6''] \<and>
       workers (messageQueue s7) = [False, False, False, False, False] \<and>
       map item_postId (getNewsFeed (cache s7) ''user2'') = [''p5'', ''p4'', ''p3'', ''p2'', ''p1''])"
  by (simp add: Let_def enqueue_def processQueue_def process_def process_resume_def
        init_system_def new_MessageQueue_def getNewsFeed_addToNewsFeed numeral_eq_Suc)

section \<open>Input that names nothing\<close>

text \<open>
  C3, as the claim states it, fails: in the empty cache no post has the id \<open>post_123\<close>
  and the counters table has no entry for it, and after \<open>likePost\<close> of that id the
  counters table holds \<open>{ likes: 1, replies: 0 }\<close> for it.
\<close>

theorem like_unknown_post_counterexample:
  "getPost empty_cache ''post_123'' = None \<and>
   counters empty_cache ''post_123'' = None \<and>
   counters (likePost empty_cache ''user2'' ''post_123'') ''post_123'' =
     Some \<lparr>likes = 1, replies = 0\<rparr>"
  by (simp add: getPost_def counters_likePost getCounters_def)

text \<open>
  C3, amended. No input to \<open>likePost\<close>, \<open>createPost\<close> or \<open>addFollower\<close> is rejected.
  A like of an id that \<open>getPost\<close> does not find leaves the post tables (\<open>posts\<close>,
  \<open>hotCache\<close> and the post objects), the users, the feeds and the follow graph as they
  were, records the like for the user and leaves an entry for the id in the counters
  table; when the user has not liked that id before, it raises the like counter of the
  id by 1. \<open>createPost\<close> stores the post under its new id whatever the content is (the
  empty string too), and \<open>addFollower\<close> records the edge in both indexes whatever the
  two ids are.
\<close>

theorem nothing_is_rejected:
  "(getPost s postId = None \<longrightarrow>
      posts (likePost s userId postId) = posts s \<and>
      hotCache (likePost s userId postId) = hotCache s \<and>
      objs (likePost s userId postId) = objs s \<and>
      users (likePost s userId postId) = users s \<and>
      newsFeeds (likePost s userId postId) = newsFeeds s \<and>
      socialGraph (likePost s userId postId) = socialGraph s \<and>
      hasLiked (likePost s userId postId) userId postId \<and>
      counters (likePost s userId postId) postId \<noteq> None) \<and>
   (getPost s postId = None \<and> \<not> hasLiked s userId postId \<longrightarrow>
      likes (getCounters (likePost s userId postId) postId) = likes (getCounters s postId) + 1) \<and>
   posts (snd (createPost s authorId cont imgUrl vidUrl now_id rnd now_ts))
     (''post_'' @ string_of_nat now_id @ ''_'' @ rnd) =
     Some (fst (createPost s authorId cont imgUrl vidUrl now_id rnd now_ts)) \<and>
   content (deref (snd (createPost s authorId cont imgUrl vidUrl now_id rnd now_ts))
              (fst (createPost s authorId cont imgUrl vidUrl now_id rnd now_ts))) = cont \<and>
   followerId \<in> set (getFollowers (addFollower s targetId followerId) targetId) \<and>
   targetId \<in> set (getFollowing (addFollower s targetId followerId) followerId)"
  by (simp add: posts_likePost hotCache_likePost objs_likePost hasLiked_likePost_self
        likes_likePost counters_likePost posts_createPost fst_createPost deref_createPost
        getFollowers_addFollower getFollowing_addFollower set_set_add)

theorem nothing_is_rejected_witness:
  "getPost empty_cache ''post_123'' = None \<and>
   \<not> hasLiked empty_cache ''user2'' ''post_123'' \<and>
   posts (likePost empty_cache ''user2'' ''post_123'') = posts empty_cache \<and>
   hotCache (likePost empty_cache ''user2'' ''post_123'') = hotCache empty_cache \<and>
   hasLiked (likePost empty_cache ''user2'' ''post_123'') ''user2'' ''post_123'' \<and>
   likes (getCounters (likePost empty_cache ''user2'' ''post_123'') ''post_123'') = 1 \<and>
   content (deref (snd (createPost empty_cache ''user1'' [] None None 7 ''i'' 7))
              (fst (createPost empty_cache ''user1'' [] None None 7 ''i'' 7))) = []"
proof -
  have absent: "getPost empty_cache ''post_123'' = None"
    by (simp add: getPost_def)
  have zero: "likes (getCounters empty_cache ''post_123'') = 0"
    by (simp add: getCounters_def)
  have fresh: "\<not> hasLiked empty_cache ''user2'' ''post_123''"
    by (simp add: hasLiked_def)
  from absent zero fresh
    nothing_is_rejected [of empty_cache "''post_123''" "''user2''" "''user1''" "[]" None None 7 "''i''" 7]
  show ?thesis by simp
qed

section \<open>Creating a post\<close>

text \<open>
  C8, as the claim states it, fails: two \<open>createPost\<close> calls by different authors that
  read the same clock value and draw the same random suffix (\<open>Math.random()\<close> returning
  0.5 gives the suffix \<open>i\<close>) allocate two different objects with the same post id.
\<close>

theorem createPost_same_instant_counterexample:
  "fst (createPost empty_cache ''user1'' ''first'' None None 7 ''i'' 7) \<noteq>
   fst (createPost (snd (createPost empty_cache ''user1'' ''first'' None None 7 ''i'' 7))
          ''user2'' ''second'' None None 7 ''i'' 7) \<and>
   post_id (deref (snd (createPost empty_cache ''user1'' ''first'' None None 7 ''i'' 7))
              (fst (createPost empty_cache ''user1'' ''first'' None None 7 ''i'' 7))) =
   post_id (deref (snd (createPost (snd (createPost empty_cache ''user1'' ''first'' None None 7 ''i'' 7))
                          ''user2'' ''second'' None None 7 ''i'' 7))
              (fst (createPost (snd (createPost empty_cache ''user1'' ''first'' None None 7 ''i'' 7))
                          ''user2'' ''second'' None None 7 ''i'' 7)))"
  by (simp add: fst_createPost deref_createPost nextRef_createPost)

text \<open>
  C8, amended. \<open>createPost\<close> returns a post with \<open>likeCount = 0\<close>, \<open>replyCount = 0\<close>,
  the clock reading as its timestamp, and the id \<open>post_\<close>, the clock reading in decimal,
  \<open>_\<close>, the random suffix. The ids of two calls are equal exactly when the two calls
  read the same clock value and draw the same suffix; so they are distinct whenever the
  clock values or the suffixes differ.
\<close>

theorem createPost_fresh_post:
  "deref (snd (createPost s userId cont imgUrl vidUrl now_id rnd now_ts))
     (fst (createPost s userId cont imgUrl vidUrl now_id rnd now_ts)) =
     \<lparr>post_id = ''post_'' @ string_of_nat now_id @ ''_'' @ rnd,
      post_userId = userId, content = cont, imageUrl = imgUrl, videoUrl = vidUrl,
      post_timestamp = now_ts, likeCount = 0, replyCount = 0\<rparr> \<and>
   (post_id (deref (snd (createPost s userId cont imgUrl vidUrl now_id rnd now_ts))
               (fst (createPost s userId cont imgUrl vidUrl now_id rnd now_ts))) =
    post_id (deref (snd (createPost s' userId' cont' imgUrl' vidUrl' now_id' rnd' now_ts'))
               (fst (createPost s' userId' cont' imgUrl' vidUrl' now_id' rnd' now_ts')))
      \<longleftrightarrow> now_id = now_id' \<and> rnd = rnd')"
  by (simp add: fst_createPost deref_createPost post_id_tail_eq_iff)

theorem createPost_fresh_post_witness:
  "likeCount (deref (snd (createPost empty_cache ''user1'' ''first'' None None 7 ''i'' 7))
     (fst (createPost empty_cache ''user1'' ''first'' None None 7 ''i'' 7))) = 0 \<and>
   replyCount (deref (snd (createPost empty_cache ''user1'' ''first'' None None 7 ''i'' 7))
     (fst (createPost empty_cache ''user1'' ''first'' None None 7 ''i'' 7))) = 0 \<and>
   post_id (deref (snd (createPost empty_cache ''user1'' ''first'' None None 7 ''i'' 7))
               (fst (createPost empty_cache ''user1'' ''first'' None None 7 ''i'' 7))) \<noteq>
   post_id (deref (snd (createPost empty_cache ''user2'' ''second'' None None 7 ''4i'' 7))
               (fst (createPost empty_cache ''user2'' ''second'' None None 7 ''4i'' 7)))"
proof -
  let ?p = "createPost empty_cache ''user1'' ''first'' None None 7 ''i'' 7"
  let ?q = "createPost empty_cache ''user2'' ''second'' None None 7 ''4i'' 7"
  note both = createPost_fresh_post
      [of empty_cache "''user1''" "''first''" None None 7 "''i''" 7
          empty_cache "''user2''" "''second''" None None 7 "''4i''" 7]
  from both have fresh:
    "deref (snd ?p) (fst ?p) =
       \<lparr>post_id = ''post_'' @ string_of_nat 7 @ ''_'' @ ''i'',
        post_userId = ''user1'', content = ''first'', imageUrl = None, videoUrl = None,
        post_timestamp = 7, likeCount = 0, replyCount = 0\<rparr>"
    by (rule conjunct1)
  from both have ids:
    "post_id (deref (snd ?p) (fst ?p)) = post_id (deref (snd ?q) (fst ?q))
       \<longleftrightarrow> (7::nat) = 7 \<and> ''i'' = ''4i''"
    by (rule conjunct2)
  have "likeCount (deref (snd ?p) (fst ?p)) = 0" "replyCount (deref (snd ?p) (fst ?p)) = 0"
    by (simp_all only: fresh Post.simps)
  moreover from ids have "post_id (deref (snd ?p) (fst ?p)) \<noteq> post_id (deref (snd ?q) (fst ?q))"
    by simp
  ultimately show ?thesis by blast
qed

section \<open>Feed capacity\<close>

text \<open>
  C4. For every user, after any sequence of operations on the cache (any number of
  \<open>addToNewsFeed\<close> calls among them) starting from the empty cache, the user's
  stored feed holds at most 1000 entries.
\<close>

theorem feed_never_exceeds_capacity:
  "length (getNewsFeed (run xs empty_cache) userId) \<le> 1000"
  by (rule feed_bound_run) (simp add: getNewsFeed_def empty_cache_def)

text \<open>
  C5. Appending to a feed that holds exactly 1000 entries puts the new entry in front
  and drops exactly the last (oldest) entry, the others keeping their order; appending
  to a feed below capacity puts the new entry in front and removes nothing.
\<close>

theorem addToNewsFeed_at_and_below_capacity:
  "(length (getNewsFeed s userId) = 1000 \<longrightarrow>
      getNewsFeed (addToNewsFeed s userId item) userId = item # butlast (getNewsFeed s userId)) \<and>
   (length (getNewsFeed s userId) < 1000 \<longrightarrow>
      getNewsFeed (addToNewsFeed s userId item) userId = item # getNewsFeed s userId)"
  by (simp add: getNewsFeed_addToNewsFeed butlast_conv_take)

theorem addToNewsFeed_at_and_below_capacity_witness:
  "length (getNewsFeed (empty_cache\<lparr>newsFeeds := [''user2'' \<mapsto> replicate 1000 \<lparr>item_postId = ''p'', item_timestamp = 1\<rparr>]\<rparr>) ''user2'') = 1000 \<and>
   getNewsFeed (addToNewsFeed (empty_cache\<lparr>newsFeeds := [''user2'' \<mapsto> replicate 1000 \<lparr>item_postId = ''p'', item_timestamp = 1\<rparr>]\<rparr>) ''user2'' \<lparr>item_postId = ''q'', item_timestamp = 2\<rparr>) ''user2''
     = \<lparr>item_postId = ''q'', item_timestamp = 2\<rparr> #
       butlast (getNewsFeed (empty_cache\<lparr>newsFeeds := [''user2'' \<mapsto> replicate 1000 \<lparr>item_postId = ''p'', item_timestamp = 1\<rparr>]\<rparr>) ''user2'') \<and>
   length (getNewsFeed empty_cache ''user2'') < 1000 \<and>
   getNewsFeed (addToNewsFeed empty_cache ''user2'' \<lparr>item_postId = ''q'', item_timestamp = 2\<rparr>) ''user2''
     = \<lparr>item_postId = ''q'', item_timestamp = 2\<rparr> # getNewsFeed empty_cache ''user2''"
proof -
  have full: "length (getNewsFeed (empty_cache\<lparr>newsFeeds := [''user2'' \<mapsto> replicate 1000 \<lparr>item_postId = ''p'', item_timestamp = 1\<rparr>]\<rparr>) ''user2'') = 1000"
    by (simp add: getNewsFeed_def)
  have none: "length (getNewsFeed empty_cache ''user2'') < 1000"
    by (simp add: getNewsFeed_def empty_cache_def)
  from full none
    addToNewsFeed_at_and_below_capacity
          [of "empty_cache\<lparr>newsFeeds := [''user2'' \<mapsto> replicate 1000 \<lparr>item_postId = ''p'', item_timestamp = 1\<rparr>]\<rparr>"
              "''user2''" "\<lparr>item_postId = ''q'', item_timestamp = 2\<rparr>"]
    addToNewsFeed_at_and_below_capacity
          [of empty_cache "''user2''" "\<lparr>item_postId = ''q'', item_timestamp = 2\<rparr>"]
  show ?thesis by blast
qed


section \<open>Follow graph\<close>

text \<open>
  C6. After \<open>addFollower\<close> with target \<open>b\<close> and follower \<open>a\<close>, \<open>getFollowers b\<close>
  contains \<open>a\<close> and \<open>getFollowing a\<close> contains \<open>b\<close>; and after any sequence of
  operations from the empty cache, \<open>a\<close> is among the followers of \<open>b\<close> exactly when
  \<open>b\<close> is among those \<open>a\<close> follows.
\<close>

theorem follow_indexes_are_inverses:
  "a \<in> set (getFollowers (addFollower s b a) b) \<and>
   b \<in> set (getFollowing (addFollower s b a) a) \<and>
   (a \<in> set (getFollowers (run xs empty_cache) b) \<longleftrightarrow>
    b \<in> set (getFollowing (run xs empty_cache) a))"
proof -
  have "graph_inv (run xs empty_cache)"
    by (rule graph_inv_run) (simp add: graph_inv_def)
  then show ?thesis
    by (simp add: graph_inv_def getFollowers_addFollower getFollowing_addFollower set_set_add)
qed


section \<open>Reading a feed\<close>




section \<open>The hot cache\<close>




section \<open>Reply counts\<close>

text \<open>
  C10. After any sequence of operations from the empty cache, \<open>getCounters\<close> reports
  \<open>replies = 0\<close> for every post id, and every item of every hydrated feed has
  \<open>replyCount = 0\<close>.
\<close>

theorem reply_counts_stay_zero:
  "replies (getCounters (run xs empty_cache) postId) = 0 \<and>
   (\<forall>h \<in> set (NewsFeedService_getNewsFeed (run xs empty_cache) userId limit).
      h_replyCount h = 0)"
proof -
  have inv: "counters_inv (run xs empty_cache)"
    by (simp add: counters_inv_run counters_inv_empty)
  then show ?thesis
    by (auto simp: counters_inv_replies NewsFeedService_getNewsFeed_def dest: hydrate_replies)
qed

theorem reply_counts_stay_zero_witness:
  "replies (getCounters
     (run [SetUser \<lparr>user_id = ''user1'', username = ''alice'', profilePicture = ''a.jpg''\<rparr>,
              CreatePost ''user1'' ''hello'' None None 7 ''i'' 7,
              AddToNewsFeed ''user2'' \<lparr>item_postId = ''post_7_i'', item_timestamp = 8\<rparr>,
              AddToNewsFeed ''user2'' \<lparr>item_postId = ''ghost'', item_timestamp = 9\<rparr>,
              LikePost ''user2'' ''post_7_i''] empty_cache) ''post_7_i'') = 0 \<and>
   map h_replyCount (NewsFeedService_getNewsFeed
     (run [SetUser \<lparr>user_id = ''user1'', username = ''alice'', profilePicture = ''a.jpg''\<rparr>,
              CreatePost ''user1'' ''hello'' None None 7 ''i'' 7,
              AddToNewsFeed ''user2'' \<lparr>item_postId = ''post_7_i'', item_timestamp = 8\<rparr>,
              AddToNewsFeed ''user2'' \<lparr>item_postId = ''ghost'', item_timestamp = 9\<rparr>,
              LikePost ''user2'' ''post_7_i''] empty_cache) ''user2'' 20) = [0]"
  using reply_counts_stay_zero
      [of "[SetUser \<lparr>user_id = ''user1'', username = ''alice'', profilePicture = ''a.jpg''\<rparr>,
              CreatePost ''user1'' ''hello'' None None 7 ''i'' 7,
              AddToNewsFeed ''user2'' \<lparr>item_postId = ''post_7_i'', item_timestamp = 8\<rparr>,
              AddToNewsFeed ''user2'' \<lparr>item_postId = ''ghost'', item_timestamp = 9\<rparr>,
              LikePost ''user2'' ''post_7_i'']" "''post_7_i''" "''user2''" 20]
  by (simp add: small_run_feed del: run.simps)



end
